theory Spec2Isabelle
  imports Main "HOL-Library.Multiset"
begin

section \<open>The todo and post backend: data model\<close>

text \<open>
  The repository is an Express application (\<^verbatim>\<open>app.js\<close>, and \<^verbatim>\<open>api/index.js\<close> for the
  serverless deployment) whose route handlers call Mongoose models \<^verbatim>\<open>Todo\<close> and \<^verbatim>\<open>Post\<close>.
  A handler is modelled as a function from the store and the request to the response and
  the store after the request. The two collections are lists in insertion order.

  Scope of the model. A request body is the object \<^verbatim>\<open>express.json()\<close> leaves in
  \<^verbatim>\<open>req.body\<close>; each field the schemas declare is either absent (\<^verbatim>\<open>undefined\<close> after
  destructuring, \<open>None\<close> here) or present with a value of the type its schema declares.
  A request that carries no JSON body leaves \<^verbatim>\<open>req.body\<close> itself \<^verbatim>\<open>undefined\<close>: the body of
  such a request is \<open>None\<close> where a handler is stated on a \<open>todo_body option request\<close>.
  Bodies with a \<^verbatim>\<open>null\<close> or an ill-typed value for a declared field are outside the model,
  and so are failures of the database connection. The version key \<^verbatim>\<open>__v\<close> and the
  \<^verbatim>\<open>_id\<close> Mongoose gives to each media subdocument are not represented.
\<close>

type_synonym objectid = string
type_synonym date = int

text \<open>Any JSON value, for the keys of a body that no schema declares.\<close>

datatype json = JNull | JBool bool | JNum int | JStr string
  | JArr "json list" | JObj "(string \<times> json) list"

text \<open>\<^verbatim>\<open>todoSchema\<close> with \<^verbatim>\<open>timestamps: true\<close> (app.js, lines 27-33).\<close>

record todo =
  t_id :: objectid
  t_title :: string
  t_done :: bool
  t_createdAt :: date
  t_updatedAt :: date

text \<open>
  An entry of \<^verbatim>\<open>media\<close> (app.js, lines 48-57). Both paths are strings that the schema
  marks \<^verbatim>\<open>required\<close>; whether they are present is checked by validation only, so a
  stored entry may lack them.
\<close>

record media =
  m_type :: "string option"
  m_url :: "string option"

text \<open>\<^verbatim>\<open>postSchema\<close> with \<^verbatim>\<open>timestamps: true\<close> (app.js, lines 38-60).\<close>

record post =
  p_id :: objectid
  p_title :: string
  p_content :: string
  p_tags :: "string list"
  p_coverImage :: string
  p_media :: "media list"
  p_createdAt :: date
  p_updatedAt :: date

record store =
  todos :: "todo list"
  posts :: "post list"

text \<open>The body of a request to the Todo routes: \<^verbatim>\<open>title\<close>, \<^verbatim>\<open>done\<close>, and every other key.\<close>

record todo_body =
  tb_title :: "string option"
  tb_done :: "bool option"
  tb_other :: "(string \<times> json) list"

text \<open>The body of a request to the Post routes.\<close>

record post_body =
  pb_title :: "string option"
  pb_content :: "string option"
  pb_tags :: "string list option"
  pb_coverImage :: "string option"
  pb_media :: "media list option"
  pb_other :: "(string \<times> json) list"

text \<open>
  What a handler reads of \<^verbatim>\<open>req\<close>: \<^verbatim>\<open>req.headers\<close> (Node lower-cases header names),
  \<^verbatim>\<open>req.params.id\<close> (the empty string on the routes without \<^verbatim>\<open>:id\<close>) and \<^verbatim>\<open>req.body\<close>.
\<close>

record 'b request =
  headers :: "string \<rightharpoonup> string"
  params_id :: string
  body :: 'b

text \<open>
  The \<^verbatim>\<open>message\<close> strings of the source are Chinese text; each is named here by its
  meaning: \<open>TitleRequired\<close> is sent with 400, \<open>ServerError\<close> with 500,
  \<open>TodoNotFound\<close> and \<open>PostNotFound\<close> with 404, \<open>Deleted\<close> with 200 after a delete and
  \<open>Unauthorized\<close> with 401.
\<close>

datatype message = TitleRequired | ServerError | TodoNotFound | PostNotFound
  | Deleted | Unauthorized

datatype payload = Message message | TodoDoc todo | TodoList "todo list"
  | PostDoc post | PostList "post list"

type_synonym response = "nat \<times> payload"

section \<open>The Mongoose model methods the handlers call\<close>

text \<open>
  Mongoose is a dependency, not part of the sources. Its methods are modelled after the
  documented behaviour of its current major versions (7 and 8) for the two schemas above;
  a rejected promise is \<open>Inl\<close>. The specification's description of the store agrees with
  this behaviour on updates (a partial merge, the record after the update as the result,
  no record created) and departs from it on ids that do not have the store's format,
  where the model follows the library.
\<close>

datatype store_error = CastError | ValidationError

definition isHexDigit :: "char \<Rightarrow> bool" where
  "isHexDigit c = (c \<in> set ''0123456789abcdefABCDEF'')"

definition lowerHex :: "char \<Rightarrow> char" where
  "lowerHex c =
     (if c = CHR ''A'' then CHR ''a'' else if c = CHR ''B'' then CHR ''b''
      else if c = CHR ''C'' then CHR ''c'' else if c = CHR ''D'' then CHR ''d''
      else if c = CHR ''E'' then CHR ''e'' else if c = CHR ''F'' then CHR ''f'' else c)"

text \<open>
  The cast of \<^verbatim>\<open>req.params.id\<close> to the type of \<^verbatim>\<open>_id\<close>. An ObjectId is written as 24
  hexadecimal digits, in either case; any other string fails to cast.
\<close>

definition castObjectId :: "string \<Rightarrow> objectid option" where
  "castObjectId s =
     (if length s = 24 \<and> list_all isHexDigit s then Some (map lowerHex s) else None)"

text \<open>The first document a filter matches is the one replaced or removed.\<close>

fun updateOne :: "('a \<Rightarrow> bool) \<Rightarrow> 'a \<Rightarrow> 'a list \<Rightarrow> 'a list" where
  "updateOne P y [] = []"
| "updateOne P y (x # xs) = (if P x then y # xs else x # updateOne P y xs)"

fun deleteOne :: "('a \<Rightarrow> bool) \<Rightarrow> 'a list \<Rightarrow> 'a list" where
  "deleteOne P [] = []"
| "deleteOne P (x # xs) = (if P x then xs else x # deleteOne P xs)"

subsection \<open>Todo\<close>

text \<open>The object given to \<^verbatim>\<open>new Todo(...)\<close>, \<^verbatim>\<open>Todo.create\<close> and \<^verbatim>\<open>findByIdAndUpdate\<close>.\<close>

record todo_fields =
  f_title :: "string option"
  f_done :: "bool option"

text \<open>
  The \<^verbatim>\<open>required\<close> validator of a String path fails on \<^verbatim>\<open>undefined\<close> and on the empty
  string.
\<close>

definition required_string :: "string option \<Rightarrow> bool" where
  "required_string v = (case v of None \<Rightarrow> False | Some x \<Rightarrow> x \<noteq> [])"

text \<open>
  \<^verbatim>\<open>new Todo(f).save()\<close> and \<^verbatim>\<open>Todo.create(f)\<close>: the default of \<^verbatim>\<open>done\<close> is applied where
  it is \<^verbatim>\<open>undefined\<close>, the document is validated, \<^verbatim>\<open>_id\<close> is the ObjectId \<open>oid\<close> the driver
  generates, both timestamps are the clock value \<open>now\<close>, and the document is inserted.
\<close>

definition Todo_create :: "date \<Rightarrow> objectid \<Rightarrow> store \<Rightarrow> todo_fields
    \<Rightarrow> store_error + (todo \<times> store)" where
  "Todo_create now oid s f =
     (case f_title f of
        None \<Rightarrow> Inl ValidationError
      | Some title \<Rightarrow>
          if \<not> required_string (Some title) then Inl ValidationError
          else
            let doc = \<lparr>t_id = oid, t_title = title,
                       t_done = (case f_done f of None \<Rightarrow> False | Some b \<Rightarrow> b),
                       t_createdAt = now, t_updatedAt = now\<rparr>
            in Inr (doc, s\<lparr>todos := todos s @ [doc]\<rparr>))"

text \<open>\<^verbatim>\<open>Todo.find().sort({ createdAt: -1 })\<close>. The store does not specify the order of
  documents created at the same instant; the model keeps their insertion order.\<close>

definition Todo_find_sorted :: "store \<Rightarrow> todo list" where
  "Todo_find_sorted s = sort_key (\<lambda>d. - t_createdAt d) (todos s)"

text \<open>\<^verbatim>\<open>Todo.findById(id)\<close>: rejects when the id does not cast, resolves to \<^verbatim>\<open>null\<close>
  (\<open>None\<close>) when no document has the id.\<close>

definition Todo_findById :: "store \<Rightarrow> string \<Rightarrow> store_error + todo option" where
  "Todo_findById s i =
     (case castObjectId i of
        None \<Rightarrow> Inl CastError
      | Some oid \<Rightarrow> Inr (find (\<lambda>d. t_id d = oid) (todos s)))"

text \<open>
  The update \<^verbatim>\<open>findByIdAndUpdate\<close> applies: keys whose value is \<^verbatim>\<open>undefined\<close> are
  removed from the update (since Mongoose 6; earlier versions set them to \<^verbatim>\<open>null\<close>), the
  others are set, and \<^verbatim>\<open>updatedAt\<close> is refreshed. No validator runs (\<^verbatim>\<open>runValidators\<close> is
  not set by any handler).
\<close>

definition Todo_set :: "date \<Rightarrow> todo_fields \<Rightarrow> todo \<Rightarrow> todo" where
  "Todo_set now f d =
     d\<lparr>t_title := (case f_title f of None \<Rightarrow> t_title d | Some x \<Rightarrow> x),
       t_done := (case f_done f of None \<Rightarrow> t_done d | Some b \<Rightarrow> b),
       t_updatedAt := now\<rparr>"

text \<open>\<^verbatim>\<open>Todo.findByIdAndUpdate(id, f, { new: true })\<close>: resolves to the document after
  the update, or to \<^verbatim>\<open>null\<close> when no document has the id (there is no upsert).\<close>

definition Todo_findByIdAndUpdate :: "date \<Rightarrow> store \<Rightarrow> string \<Rightarrow> todo_fields
    \<Rightarrow> store_error + (todo option \<times> store)" where
  "Todo_findByIdAndUpdate now s i f =
     (case castObjectId i of
        None \<Rightarrow> Inl CastError
      | Some oid \<Rightarrow>
          (case find (\<lambda>d. t_id d = oid) (todos s) of
             None \<Rightarrow> Inr (None, s)
           | Some d \<Rightarrow>
               Inr (Some (Todo_set now f d),
                    s\<lparr>todos := updateOne (\<lambda>d. t_id d = oid) (Todo_set now f d) (todos s)\<rparr>)))"


subsection \<open>Post\<close>

record post_fields =
  g_title :: "string option"
  g_content :: "string option"
  g_tags :: "string list option"
  g_coverImage :: "string option"
  g_media :: "media list option"

text \<open>The validators of one media entry: \<^verbatim>\<open>type\<close> is required and, where it is
  defined, in the \<^verbatim>\<open>enum\<close>; \<^verbatim>\<open>url\<close> is required.\<close>

definition valid_media :: "media \<Rightarrow> bool" where
  "valid_media m =
     (required_string (m_type m)
      \<and> (case m_type m of None \<Rightarrow> True
          | Some x \<Rightarrow> x \<in> set [''image'', ''video'', ''audio''])
      \<and> required_string (m_url m))"

text \<open>\<^verbatim>\<open>Post.create(g)\<close>: defaults for the paths that are \<^verbatim>\<open>undefined\<close> (an array path
  defaults to the empty array), validation, then the insert.\<close>

definition Post_create :: "date \<Rightarrow> objectid \<Rightarrow> store \<Rightarrow> post_fields
    \<Rightarrow> store_error + (post \<times> store)" where
  "Post_create now oid s g =
     (let ms = (case g_media g of None \<Rightarrow> [] | Some l \<Rightarrow> l) in
      case g_title g of
        None \<Rightarrow> Inl ValidationError
      | Some title \<Rightarrow>
          if \<not> required_string (Some title) \<or> \<not> list_all valid_media ms
          then Inl ValidationError
          else
            let doc = \<lparr>p_id = oid, p_title = title,
                       p_content = (case g_content g of None \<Rightarrow> [] | Some c \<Rightarrow> c),
                       p_tags = (case g_tags g of None \<Rightarrow> [] | Some l \<Rightarrow> l),
                       p_coverImage = (case g_coverImage g of None \<Rightarrow> [] | Some c \<Rightarrow> c),
                       p_media = ms,
                       p_createdAt = now, p_updatedAt = now\<rparr>
            in Inr (doc, s\<lparr>posts := posts s @ [doc]\<rparr>))"

definition Post_find_sorted :: "store \<Rightarrow> post list" where
  "Post_find_sorted s = sort_key (\<lambda>d. - p_createdAt d) (posts s)"

definition Post_findById :: "store \<Rightarrow> string \<Rightarrow> store_error + post option" where
  "Post_findById s i =
     (case castObjectId i of
        None \<Rightarrow> Inl CastError
      | Some oid \<Rightarrow> Inr (find (\<lambda>d. p_id d = oid) (posts s)))"

definition Post_set :: "date \<Rightarrow> post_fields \<Rightarrow> post \<Rightarrow> post" where
  "Post_set now g d =
     d\<lparr>p_title := (case g_title g of None \<Rightarrow> p_title d | Some x \<Rightarrow> x),
       p_content := (case g_content g of None \<Rightarrow> p_content d | Some x \<Rightarrow> x),
       p_tags := (case g_tags g of None \<Rightarrow> p_tags d | Some x \<Rightarrow> x),
       p_coverImage := (case g_coverImage g of None \<Rightarrow> p_coverImage d | Some x \<Rightarrow> x),
       p_media := (case g_media g of None \<Rightarrow> p_media d | Some x \<Rightarrow> x),
       p_updatedAt := now\<rparr>"

definition Post_findByIdAndUpdate :: "date \<Rightarrow> store \<Rightarrow> string \<Rightarrow> post_fields
    \<Rightarrow> store_error + (post option \<times> store)" where
  "Post_findByIdAndUpdate now s i g =
     (case castObjectId i of
        None \<Rightarrow> Inl CastError
      | Some oid \<Rightarrow>
          (case find (\<lambda>d. p_id d = oid) (posts s) of
             None \<Rightarrow> Inr (None, s)
           | Some d \<Rightarrow>
               Inr (Some (Post_set now g d),
                    s\<lparr>posts := updateOne (\<lambda>d. p_id d = oid) (Post_set now g d) (posts s)\<rparr>)))"

definition Post_findByIdAndDelete :: "store \<Rightarrow> string
    \<Rightarrow> store_error + (post option \<times> store)" where
  "Post_findByIdAndDelete s i =
     (case castObjectId i of
        None \<Rightarrow> Inl CastError
      | Some oid \<Rightarrow>
          (case find (\<lambda>d. p_id d = oid) (posts s) of
             None \<Rightarrow> Inr (None, s)
           | Some d \<Rightarrow> Inr (Some d, s\<lparr>posts := deleteOne (\<lambda>d. p_id d = oid) (posts s)\<rparr>)))"

section \<open>The route handlers\<close>

text \<open>\<^verbatim>\<open>!title\<close> for a value that is \<^verbatim>\<open>undefined\<close> or a string.\<close>

definition falsy :: "string option \<Rightarrow> bool" where
  "falsy v = (case v of None \<Rightarrow> True | Some x \<Rightarrow> x = [])"

text \<open>\<^verbatim>\<open>const ADMIN_KEY = process.env.ADMIN_KEY || 'dagu-admin-key'\<close> (api/index.js), the
  argument being the environment variable.\<close>

definition ADMIN_KEY :: "string option \<Rightarrow> string" where
  "ADMIN_KEY v =
     (case v of None \<Rightarrow> ''dagu-admin-key''
      | Some k \<Rightarrow> if k = [] then ''dagu-admin-key'' else k)"

text \<open>\<^verbatim>\<open>key !== ADMIN_KEY\<close> with \<^verbatim>\<open>key = req.headers['x-admin-key']\<close>.\<close>

definition key_mismatch :: "string option \<Rightarrow> 'b request \<Rightarrow> bool" where
  "key_mismatch v req = (headers req ''x-admin-key'' \<noteq> Some (ADMIN_KEY v))"

subsection \<open>app.js\<close>

text \<open>\<^verbatim>\<open>app.post('/todos', ...)\<close>, lines 70-83.\<close>

definition app_post_todos :: "date \<Rightarrow> objectid \<Rightarrow> store \<Rightarrow> todo_body request
    \<Rightarrow> response \<times> store" where
  "app_post_todos now oid s req =
     (let title = tb_title (body req); done = tb_done (body req) in
      if falsy title then ((400, Message TitleRequired), s)
      else
        (case Todo_create now oid s \<lparr>f_title = title, f_done = done\<rparr> of
           Inl err \<Rightarrow> ((500, Message ServerError), s)
         | Inr (saved, s') \<Rightarrow> ((201, TodoDoc saved), s')))"


text \<open>\<^verbatim>\<open>app.get('/todos', ...)\<close>, lines 85-93.\<close>

definition app_get_todos :: "store \<Rightarrow> 'b request \<Rightarrow> response \<times> store" where
  "app_get_todos s req = ((200, TodoList (Todo_find_sorted s)), s)"

text \<open>\<^verbatim>\<open>app.get('/todos/:id', ...)\<close>, lines 95-104.\<close>

definition app_get_todos_id :: "store \<Rightarrow> 'b request \<Rightarrow> response \<times> store" where
  "app_get_todos_id s req =
     (case Todo_findById s (params_id req) of
        Inl err \<Rightarrow> ((500, Message ServerError), s)
      | Inr None \<Rightarrow> ((404, Message TodoNotFound), s)
      | Inr (Some todo) \<Rightarrow> ((200, TodoDoc todo), s))"

text \<open>\<^verbatim>\<open>app.put('/todos/:id', ...)\<close>, lines 106-120.\<close>

definition app_put_todos_id :: "date \<Rightarrow> store \<Rightarrow> todo_body request \<Rightarrow> response \<times> store" where
  "app_put_todos_id now s req =
     (let title = tb_title (body req); done = tb_done (body req) in
      case Todo_findByIdAndUpdate now s (params_id req) \<lparr>f_title = title, f_done = done\<rparr> of
        Inl err \<Rightarrow> ((500, Message ServerError), s)
      | Inr (None, s') \<Rightarrow> ((404, Message TodoNotFound), s')
      | Inr (Some updated, s') \<Rightarrow> ((200, TodoDoc updated), s'))"


text \<open>\<^verbatim>\<open>app.get('/posts', ...)\<close>, lines 135-143.\<close>

definition app_get_posts :: "store \<Rightarrow> 'b request \<Rightarrow> response \<times> store" where
  "app_get_posts s req = ((200, PostList (Post_find_sorted s)), s)"

text \<open>\<^verbatim>\<open>app.post('/posts', ...)\<close>, lines 146-167. This handler reads no header.\<close>

definition app_post_posts :: "date \<Rightarrow> objectid \<Rightarrow> store \<Rightarrow> post_body request
    \<Rightarrow> response \<times> store" where
  "app_post_posts now oid s req =
     (let title = pb_title (body req); content = pb_content (body req);
          tags = pb_tags (body req); coverImage = pb_coverImage (body req);
          media = pb_media (body req) in
      if falsy title then ((400, Message TitleRequired), s)
      else
        (case Post_create now oid s
                \<lparr>g_title = title, g_content = content, g_tags = tags,
                 g_coverImage = coverImage, g_media = media\<rparr> of
           Inl err \<Rightarrow> ((500, Message ServerError), s)
         | Inr (doc, s') \<Rightarrow> ((201, PostDoc doc), s')))"

text \<open>\<^verbatim>\<open>app.get('/posts/:id', ...)\<close>, lines 170-179.\<close>

definition app_get_posts_id :: "store \<Rightarrow> 'b request \<Rightarrow> response \<times> store" where
  "app_get_posts_id s req =
     (case Post_findById s (params_id req) of
        Inl err \<Rightarrow> ((500, Message ServerError), s)
      | Inr None \<Rightarrow> ((404, Message PostNotFound), s)
      | Inr (Some post) \<Rightarrow> ((200, PostDoc post), s))"

text \<open>\<^verbatim>\<open>app.put('/posts/:id', ...)\<close>, lines 182-196.\<close>

definition app_put_posts_id :: "date \<Rightarrow> store \<Rightarrow> post_body request \<Rightarrow> response \<times> store" where
  "app_put_posts_id now s req =
     (let title = pb_title (body req); content = pb_content (body req);
          tags = pb_tags (body req); coverImage = pb_coverImage (body req);
          media = pb_media (body req) in
      case Post_findByIdAndUpdate now s (params_id req)
             \<lparr>g_title = title, g_content = content, g_tags = tags,
              g_coverImage = coverImage, g_media = media\<rparr> of
        Inl err \<Rightarrow> ((500, Message ServerError), s)
      | Inr (None, s') \<Rightarrow> ((404, Message PostNotFound), s')
      | Inr (Some updated, s') \<Rightarrow> ((200, PostDoc updated), s'))"

text \<open>\<^verbatim>\<open>app.delete('/posts/:id', ...)\<close>, lines 199-208.\<close>

definition app_delete_posts_id :: "store \<Rightarrow> 'b request \<Rightarrow> response \<times> store" where
  "app_delete_posts_id s req =
     (case Post_findByIdAndDelete s (params_id req) of
        Inl err \<Rightarrow> ((500, Message ServerError), s)
      | Inr (None, s') \<Rightarrow> ((404, Message PostNotFound), s')
      | Inr (Some deleted, s') \<Rightarrow> ((200, Message Deleted), s'))"

subsection \<open>api/index.js\<close>

text \<open>
  The handlers of \<^verbatim>\<open>api/index.js\<close> that differ from those of \<^verbatim>\<open>app.js\<close>. The first
  argument of the Post handlers is the environment variable \<^verbatim>\<open>ADMIN_KEY\<close>.

  \<^verbatim>\<open>app.put('/todos/:id', ...)\<close>: only \<^verbatim>\<open>done\<close> is read from the body and given to the
  update.
\<close>

definition api_put_todos_id :: "date \<Rightarrow> store \<Rightarrow> todo_body request \<Rightarrow> response \<times> store" where
  "api_put_todos_id now s req =
     (let done = tb_done (body req) in
      case Todo_findByIdAndUpdate now s (params_id req) \<lparr>f_title = None, f_done = done\<rparr> of
        Inl err \<Rightarrow> ((500, Message ServerError), s)
      | Inr (None, s') \<Rightarrow> ((404, Message TodoNotFound), s')
      | Inr (Some updated, s') \<Rightarrow> ((200, TodoDoc updated), s'))"

text \<open>\<^verbatim>\<open>app.post('/posts', ...)\<close>: the key is compared before the body is read.\<close>

definition api_post_posts :: "string option \<Rightarrow> date \<Rightarrow> objectid \<Rightarrow> store
    \<Rightarrow> post_body request \<Rightarrow> response \<times> store" where
  "api_post_posts v now oid s req =
     (if key_mismatch v req then ((401, Message Unauthorized), s)
      else
        let title = pb_title (body req); content = pb_content (body req);
            tags = pb_tags (body req); coverImage = pb_coverImage (body req);
            media = pb_media (body req) in
        if falsy title then ((400, Message TitleRequired), s)
        else
          (case Post_create now oid s
                  \<lparr>g_title = title, g_content = content, g_tags = tags,
                   g_coverImage = coverImage, g_media = media\<rparr> of
             Inl err \<Rightarrow> ((500, Message ServerError), s)
           | Inr (doc, s') \<Rightarrow> ((201, PostDoc doc), s')))"

text \<open>\<^verbatim>\<open>app.put('/posts/:id', ...)\<close>.\<close>

definition api_put_posts_id :: "string option \<Rightarrow> date \<Rightarrow> store \<Rightarrow> post_body request
    \<Rightarrow> response \<times> store" where
  "api_put_posts_id v now s req =
     (if key_mismatch v req then ((401, Message Unauthorized), s)
      else
        let title = pb_title (body req); content = pb_content (body req);
            tags = pb_tags (body req); coverImage = pb_coverImage (body req);
            media = pb_media (body req) in
        case Post_findByIdAndUpdate now s (params_id req)
               \<lparr>g_title = title, g_content = content, g_tags = tags,
                g_coverImage = coverImage, g_media = media\<rparr> of
          Inl err \<Rightarrow> ((500, Message ServerError), s)
        | Inr (None, s') \<Rightarrow> ((404, Message PostNotFound), s')
        | Inr (Some updated, s') \<Rightarrow> ((200, PostDoc updated), s'))"

text \<open>\<^verbatim>\<open>app.delete('/posts/:id', ...)\<close>.\<close>

definition api_delete_posts_id :: "string option \<Rightarrow> store \<Rightarrow> 'b request
    \<Rightarrow> response \<times> store" where
  "api_delete_posts_id v s req =
     (if key_mismatch v req then ((401, Message Unauthorized), s)
      else
        case Post_findByIdAndDelete s (params_id req) of
          Inl err \<Rightarrow> ((500, Message ServerError), s)
        | Inr (None, s') \<Rightarrow> ((404, Message PostNotFound), s')
        | Inr (Some deleted, s') \<Rightarrow> ((200, Message Deleted), s'))"

subsection \<open>The earlier revision of app.js\<close>

text \<open>\<^verbatim>\<open>app.put('/posts/:id', ...)\<close> of the revision that introduced the upload route:
  only \<^verbatim>\<open>title\<close>, \<^verbatim>\<open>content\<close> and \<^verbatim>\<open>tags\<close> are read and given to the update.\<close>

definition early_put_posts_id :: "date \<Rightarrow> store \<Rightarrow> post_body request \<Rightarrow> response \<times> store" where
  "early_put_posts_id now s req =
     (let title = pb_title (body req); content = pb_content (body req);
          tags = pb_tags (body req) in
      case Post_findByIdAndUpdate now s (params_id req)
             \<lparr>g_title = title, g_content = content, g_tags = tags,
              g_coverImage = None, g_media = None\<rparr> of
        Inl err \<Rightarrow> ((500, Message ServerError), s)
      | Inr (None, s') \<Rightarrow> ((404, Message PostNotFound), s')
      | Inr (Some updated, s') \<Rightarrow> ((200, PostDoc updated), s'))"

section \<open>Sample data\<close>

text \<open>A store with one Todo and one Post, and requests against it.\<close>

definition milk :: todo where
  "milk = \<lparr>t_id = ''65f0a1b2c3d4e5f601234567'', t_title = ''buy milk'', t_done = False,
           t_createdAt = 1000, t_updatedAt = 1000\<rparr>"

definition hello :: post where
  "hello = \<lparr>p_id = ''65f0a1b2c3d4e5f6012345aa'', p_title = ''Hello'', p_content = ''text'',
            p_tags = [''a''], p_coverImage = ''http://h/c.png'',
            p_media = [\<lparr>m_type = Some ''image'', m_url = Some ''http://h/i.png''\<rparr>],
            p_createdAt = 1500, p_updatedAt = 1500\<rparr>"

text \<open>The Todo that a POST /todos with the title "walk dog" stores at the clock value \<open>c\<close>.\<close>

definition walk :: "date \<Rightarrow> todo" where
  "walk c = \<lparr>t_id = ''65f0a1b2c3d4e5f6012345bb'', t_title = ''walk dog'', t_done = False,
             t_createdAt = c, t_updatedAt = c\<rparr>"

definition store0 :: store where
  "store0 = \<lparr>todos = [], posts = []\<rparr>"

definition store1 :: store where
  "store1 = \<lparr>todos = [milk], posts = [hello]\<rparr>"

definition no_todo_body :: todo_body where
  "no_todo_body = \<lparr>tb_title = None, tb_done = None, tb_other = []\<rparr>"

definition no_post_body :: post_body where
  "no_post_body = \<lparr>pb_title = None, pb_content = None, pb_tags = None,
                   pb_coverImage = None, pb_media = None, pb_other = []\<rparr>"

text \<open>A request with no \<^verbatim>\<open>x-admin-key\<close> header.\<close>

definition anon :: "string \<Rightarrow> 'b \<Rightarrow> 'b request" where
  "anon i b = \<lparr>headers = Map.empty, params_id = i, body = b\<rparr>"

section \<open>Properties\<close>

subsection \<open>Lists\<close>

lemma find_updateOne:
  "find P xs = Some d \<Longrightarrow> P y \<Longrightarrow> find P (updateOne P y xs) = Some y"
  by (induction xs) (auto split: if_splits)

lemma find_Some_holds: "find P xs = Some d \<Longrightarrow> P d \<and> d \<in> set xs"
  by (induction xs) (auto split: if_splits)

lemma mset_updateOne:
  "find P xs = Some d \<Longrightarrow> mset (updateOne P y xs) = mset xs - {#d#} + {#y#}"
proof (induction xs)
  case Nil
  then show ?case by simp
next
  case (Cons a xs)
  show ?case
  proof (cases "P a")
    case True
    with Cons.prems show ?thesis by simp
  next
    case False
    with Cons.prems have f: "find P xs = Some d" by simp
    then have "d \<in># mset xs" using find_Some_holds [of P xs d] by simp
    with False f Cons.IH show ?thesis by simp
  qed
qed

lemma length_updateOne: "length (updateOne P y xs) = length xs"
  by (induction xs) auto

subsection \<open>Identifiers\<close>


lemma castObjectId_milk: "castObjectId ''65f0a1b2c3d4e5f601234567'' = Some ''65f0a1b2c3d4e5f601234567''"
  by (simp add: castObjectId_def isHexDigit_def lowerHex_def)

lemma castObjectId_hello: "castObjectId ''65f0a1b2c3d4e5f6012345aa'' = Some ''65f0a1b2c3d4e5f6012345aa''"
  by (simp add: castObjectId_def isHexDigit_def lowerHex_def)

lemma castObjectId_upper: "castObjectId ''65F0A1B2C3D4E5F601234567'' = Some ''65f0a1b2c3d4e5f601234567''"
  by (simp add: castObjectId_def isHexDigit_def lowerHex_def)

subsection \<open>An id that resolves\<close>

lemma Todo_resolved:
  assumes "Todo_findById s i = Inr (Some d)"
  obtains oid where "castObjectId i = Some oid"
    and "find (\<lambda>e. t_id e = oid) (todos s) = Some d" and "t_id d = oid"
proof -
  from assms obtain oid where c: "castObjectId i = Some oid"
    by (auto simp: Todo_findById_def split: option.splits)
  with assms have f: "find (\<lambda>e. t_id e = oid) (todos s) = Some d"
    by (simp add: Todo_findById_def)
  then have "t_id d = oid"
    using find_Some_holds [of "\<lambda>e. t_id e = oid" "todos s" d] by simp
  with c f that show thesis by blast
qed

lemma Post_resolved:
  assumes "Post_findById s i = Inr (Some d)"
  obtains oid where "castObjectId i = Some oid"
    and "find (\<lambda>e. p_id e = oid) (posts s) = Some d" and "p_id d = oid"
proof -
  from assms obtain oid where c: "castObjectId i = Some oid"
    by (auto simp: Post_findById_def split: option.splits)
  with assms have f: "find (\<lambda>e. p_id e = oid) (posts s) = Some d"
    by (simp add: Post_findById_def)
  then have "p_id d = oid"
    using find_Some_holds [of "\<lambda>e. p_id e = oid" "posts s" d] by simp
  with c f that show thesis by blast
qed

lemma Todo_findByIdAndUpdate_resolved:
  assumes "Todo_findById s i = Inr (Some d)"
  shows "\<exists>s'. Todo_findByIdAndUpdate now s i f = Inr (Some (Todo_set now f d), s')
    \<and> Todo_findById s' i = Inr (Some (Todo_set now f d))
    \<and> posts s' = posts s
    \<and> mset (todos s') = mset (todos s) - {#d#} + {#Todo_set now f d#}"
proof -
  from assms obtain oid where c: "castObjectId i = Some oid"
    and f: "find (\<lambda>e. t_id e = oid) (todos s) = Some d" and o: "t_id d = oid"
    by (rule Todo_resolved)
  let ?d = "Todo_set now f d"
  let ?s = "s\<lparr>todos := updateOne (\<lambda>e. t_id e = oid) ?d (todos s)\<rparr>"
  have i: "t_id ?d = oid" using o by (simp add: Todo_set_def)
  have 1: "Todo_findByIdAndUpdate now s i f = Inr (Some ?d, ?s)"
    using c f by (simp add: Todo_findByIdAndUpdate_def)
  have 2: "Todo_findById ?s i = Inr (Some ?d)"
    using c find_updateOne [OF f, of ?d] i by (simp add: Todo_findById_def)
  have 3: "mset (todos ?s) = mset (todos s) - {#d#} + {#?d#}"
    using mset_updateOne [OF f, of ?d] by simp
  from 1 2 3 show ?thesis by simp
qed

lemma Post_findByIdAndUpdate_resolved:
  assumes "Post_findById s i = Inr (Some d)"
  shows "\<exists>s'. Post_findByIdAndUpdate now s i g = Inr (Some (Post_set now g d), s')
    \<and> Post_findById s' i = Inr (Some (Post_set now g d))
    \<and> todos s' = todos s
    \<and> mset (posts s') = mset (posts s) - {#d#} + {#Post_set now g d#}"
proof -
  from assms obtain oid where c: "castObjectId i = Some oid"
    and f: "find (\<lambda>e. p_id e = oid) (posts s) = Some d" and o: "p_id d = oid"
    by (rule Post_resolved)
  let ?d = "Post_set now g d"
  let ?s = "s\<lparr>posts := updateOne (\<lambda>e. p_id e = oid) ?d (posts s)\<rparr>"
  have i: "p_id ?d = oid" using o by (simp add: Post_set_def)
  have 1: "Post_findByIdAndUpdate now s i g = Inr (Some ?d, ?s)"
    using c f by (simp add: Post_findByIdAndUpdate_def)
  have 2: "Post_findById ?s i = Inr (Some ?d)"
    using c find_updateOne [OF f, of ?d] i by (simp add: Post_findById_def)
  have 3: "mset (posts ?s) = mset (posts s) - {#d#} + {#?d#}"
    using mset_updateOne [OF f, of ?d] by simp
  from 1 2 3 show ?thesis by simp
qed

subsection \<open>Sorting by creation time\<close>

lemma foldr_insort_least:
  "\<forall>y \<in> set xs. f x < f y \<Longrightarrow>
   foldr (insort_key f) xs [x] = x # foldr (insort_key f) xs []"
proof (induction xs)
  case Nil
  then show ?case by simp
next
  case (Cons a xs)
  then have "foldr (insort_key f) xs [x] = x # foldr (insort_key f) xs []" and "f x < f a"
    by simp_all
  moreover from this have "\<not> f a \<le> f x" by (simp add: not_le)
  ultimately show ?case by simp
qed

lemma sort_key_snoc_least:
  "\<forall>y \<in> set xs. f x < f y \<Longrightarrow> sort_key f (xs @ [x]) = x # sort_key f xs"
  by (simp add: sort_key_def foldr_insort_least)

lemma Todo_find_sorted_desc:
  "sorted_wrt (\<lambda>a b. t_createdAt b \<le> t_createdAt a) (Todo_find_sorted s)"
proof -
  have "sorted (map (\<lambda>d. - t_createdAt d) (Todo_find_sorted s))"
    by (simp add: Todo_find_sorted_def)
  then show ?thesis
    by (simp add: sorted_wrt_map)
qed

lemma Todo_find_sorted_mset: "mset (Todo_find_sorted s) = mset (todos s)"
  by (simp add: Todo_find_sorted_def)

subsection \<open>Validation of media entries\<close>

lemma valid_media_spelled:
  "valid_media m \<Longrightarrow>
   m_type m \<in> {Some ''image'', Some ''video'', Some ''audio''}
   \<and> m_url m \<notin> {None, Some []}"
  by (cases "m_type m"; cases "m_url m") (auto simp: valid_media_def required_string_def)

lemma not_spelled_invalid:
  "m_type m \<notin> {Some ''image'', Some ''video'', Some ''audio''} \<or> m_url m \<in> {None, Some []}
   \<Longrightarrow> \<not> valid_media m"
  using valid_media_spelled [of m] by blast

subsection \<open>Validation of the title on POST /todos\<close>





subsection \<open>Identifiers that do not cast\<close>




subsection \<open>Updating a Todo that does not exist\<close>




subsection \<open>Reads\<close>

text \<open>
  C9. GET /todos, GET /todos/:id, GET /posts and GET /posts/:id return the store they were
  given, for every store and request, whatever the answer is.
\<close>

theorem reads_leave_store:
  "snd (app_get_todos s r1) = s \<and> snd (app_get_todos_id s r2) = s
   \<and> snd (app_get_posts s r3) = s \<and> snd (app_get_posts_id s r4) = s"
  by (simp add: app_get_todos_def app_get_todos_id_def app_get_posts_def app_get_posts_id_def
      split: sum.split option.split)

subsection \<open>Updating a Post\<close>

text \<open>
  In app.js, when the id of a PUT /posts/:id resolves to a Post, the answer is 200 with
  the record as it is stored after the update. Each of title, content, tags, coverImage
  and media has the value of the body where the body supplies it and its prior value where
  the body does not; the id and the creation time are kept, and no other record changes.
\<close>

lemma app_put_posts_id_merges:
  assumes "Post_findById s (params_id req) = Inr (Some d)"
  shows "\<exists>d' s'. app_put_posts_id now s req = ((200, PostDoc d'), s')
     \<and> Post_findById s' (params_id req) = Inr (Some d')
     \<and> p_title d' = (case pb_title (body req) of None \<Rightarrow> p_title d | Some x \<Rightarrow> x)
     \<and> p_content d' = (case pb_content (body req) of None \<Rightarrow> p_content d | Some x \<Rightarrow> x)
     \<and> p_tags d' = (case pb_tags (body req) of None \<Rightarrow> p_tags d | Some x \<Rightarrow> x)
     \<and> p_coverImage d' = (case pb_coverImage (body req) of None \<Rightarrow> p_coverImage d | Some x \<Rightarrow> x)
     \<and> p_media d' = (case pb_media (body req) of None \<Rightarrow> p_media d | Some x \<Rightarrow> x)
     \<and> p_id d' = p_id d \<and> p_createdAt d' = p_createdAt d \<and> p_updatedAt d' = now
     \<and> todos s' = todos s
     \<and> mset (posts s') = mset (posts s) - {#d#} + {#d'#}"
proof -
  let ?g = "\<lparr>g_title = pb_title (body req), g_content = pb_content (body req),
             g_tags = pb_tags (body req), g_coverImage = pb_coverImage (body req),
             g_media = pb_media (body req)\<rparr>"
  from Post_findByIdAndUpdate_resolved [OF assms, of now ?g]
  obtain s' where u: "Post_findByIdAndUpdate now s (params_id req) ?g
        = Inr (Some (Post_set now ?g d), s')"
    and r: "Post_findById s' (params_id req) = Inr (Some (Post_set now ?g d))"
    and t: "todos s' = todos s"
    and m: "mset (posts s') = mset (posts s) - {#d#} + {#Post_set now ?g d#}"
    by blast
  have h: "app_put_posts_id now s req = ((200, PostDoc (Post_set now ?g d)), s')"
    using u by (simp add: app_put_posts_id_def)
  show ?thesis
    apply (rule exI [of _ "Post_set now ?g d"])
    apply (rule exI [of _ s'])
    using h r t m by (simp add: Post_set_def)
qed

lemma app_put_posts_id_merges_example:
  "Post_findById store1 ''65f0a1b2c3d4e5f6012345aa'' = Inr (Some hello)
   \<and> (\<exists>d' s'. app_put_posts_id 2000 store1
          (anon ''65f0a1b2c3d4e5f6012345aa'' (no_post_body\<lparr>pb_title := Some ''Hi''\<rparr>))
          = ((200, PostDoc d'), s')
        \<and> Post_findById s' ''65f0a1b2c3d4e5f6012345aa'' = Inr (Some d')
        \<and> p_title d' = ''Hi'' \<and> p_content d' = ''text'' \<and> p_tags d' = [''a'']
        \<and> p_coverImage d' = ''http://h/c.png''
        \<and> p_media d' = [\<lparr>m_type = Some ''image'', m_url = Some ''http://h/i.png''\<rparr>])"
proof -
  let ?r = "anon ''65f0a1b2c3d4e5f6012345aa'' (no_post_body\<lparr>pb_title := Some ''Hi''\<rparr>)"
  have a: "Post_findById store1 (params_id ?r) = Inr (Some hello)"
    by (simp add: Post_findById_def castObjectId_hello store1_def hello_def anon_def)
  from app_put_posts_id_merges [OF a, of 2000]
  obtain d' s' where "app_put_posts_id 2000 store1 ?r = ((200, PostDoc d'), s')"
    and "Post_findById s' (params_id ?r) = Inr (Some d')"
    and "p_title d' = (case pb_title (body ?r) of None \<Rightarrow> p_title hello | Some x \<Rightarrow> x)"
    and "p_content d' = (case pb_content (body ?r) of None \<Rightarrow> p_content hello | Some x \<Rightarrow> x)"
    and "p_tags d' = (case pb_tags (body ?r) of None \<Rightarrow> p_tags hello | Some x \<Rightarrow> x)"
    and "p_coverImage d'
         = (case pb_coverImage (body ?r) of None \<Rightarrow> p_coverImage hello | Some x \<Rightarrow> x)"
    and "p_media d' = (case pb_media (body ?r) of None \<Rightarrow> p_media hello | Some x \<Rightarrow> x)"
    by blast
  then have "app_put_posts_id 2000 store1 ?r = ((200, PostDoc d'), s')
        \<and> Post_findById s' ''65f0a1b2c3d4e5f6012345aa'' = Inr (Some d')
        \<and> p_title d' = ''Hi'' \<and> p_content d' = ''text'' \<and> p_tags d' = [''a'']
        \<and> p_coverImage d' = ''http://h/c.png''
        \<and> p_media d' = [\<lparr>m_type = Some ''image'', m_url = Some ''http://h/i.png''\<rparr>]"
    by (simp add: anon_def no_post_body_def hello_def)
  with a show ?thesis by (auto simp: anon_def)
qed

text \<open>
  C3, on the earlier revision. Its PUT /posts/:id gives only title, content and tags to the
  update: a PUT with a new coverImage, on the id of a stored Post, is answered 200 with
  the old coverImage, and nothing but the update time changes in the store. The handler
  of app.js stores the new coverImage on the same request.
\<close>

theorem early_put_posts_ignores_cover:
  "early_put_posts_id 2000 store1
     (anon ''65f0a1b2c3d4e5f6012345aa''
        (no_post_body\<lparr>pb_coverImage := Some ''http://h/d.png''\<rparr>))
   = ((200, PostDoc (hello\<lparr>p_updatedAt := 2000\<rparr>)),
      \<lparr>todos = [milk], posts = [hello\<lparr>p_updatedAt := 2000\<rparr>]\<rparr>)
   \<and> p_coverImage (hello\<lparr>p_updatedAt := 2000\<rparr>) = ''http://h/c.png''
   \<and> app_put_posts_id 2000 store1
     (anon ''65f0a1b2c3d4e5f6012345aa''
        (no_post_body\<lparr>pb_coverImage := Some ''http://h/d.png''\<rparr>))
   = ((200, PostDoc (hello\<lparr>p_coverImage := ''http://h/d.png'', p_updatedAt := 2000\<rparr>)),
      \<lparr>todos = [milk],
       posts = [hello\<lparr>p_coverImage := ''http://h/d.png'', p_updatedAt := 2000\<rparr>]\<rparr>)"
  by (simp add: early_put_posts_id_def app_put_posts_id_def anon_def no_post_body_def
      Post_findByIdAndUpdate_def castObjectId_hello store1_def hello_def Post_set_def)

subsection \<open>Updating a Todo\<close>

text \<open>
  C4. When the id of a PUT /todos/:id resolves to a Todo, the answer is 200 with the
  record as it is stored after the update. In app.js, done and title each have the value
  of the body where the body supplies it and the prior value where it does not, so a body
  with only done changes done and keeps the title. In api/index.js only done is read, and
  the title is kept whatever the body holds. The id and the creation time are kept, and no
  other record changes.
\<close>

theorem put_todos_keeps_absent_fields:
  assumes "Todo_findById s (params_id req) = Inr (Some d)"
  shows "(\<exists>d' s'. app_put_todos_id now s req = ((200, TodoDoc d'), s')
       \<and> Todo_findById s' (params_id req) = Inr (Some d')
       \<and> t_done d' = (case tb_done (body req) of None \<Rightarrow> t_done d | Some b \<Rightarrow> b)
       \<and> t_title d' = (case tb_title (body req) of None \<Rightarrow> t_title d | Some x \<Rightarrow> x)
       \<and> t_id d' = t_id d \<and> t_createdAt d' = t_createdAt d \<and> t_updatedAt d' = now
       \<and> posts s' = posts s
       \<and> mset (todos s') = mset (todos s) - {#d#} + {#d'#})
   \<and> (\<exists>d' s'. api_put_todos_id now s req = ((200, TodoDoc d'), s')
       \<and> Todo_findById s' (params_id req) = Inr (Some d')
       \<and> t_done d' = (case tb_done (body req) of None \<Rightarrow> t_done d | Some b \<Rightarrow> b)
       \<and> t_title d' = t_title d
       \<and> t_id d' = t_id d \<and> t_createdAt d' = t_createdAt d \<and> t_updatedAt d' = now
       \<and> posts s' = posts s
       \<and> mset (todos s') = mset (todos s) - {#d#} + {#d'#})"
proof
  let ?f = "\<lparr>f_title = tb_title (body req), f_done = tb_done (body req)\<rparr>"
  from Todo_findByIdAndUpdate_resolved [OF assms, of now ?f]
  obtain s' where u: "Todo_findByIdAndUpdate now s (params_id req) ?f
        = Inr (Some (Todo_set now ?f d), s')"
    and r: "Todo_findById s' (params_id req) = Inr (Some (Todo_set now ?f d))"
    and t: "posts s' = posts s"
    and m: "mset (todos s') = mset (todos s) - {#d#} + {#Todo_set now ?f d#}"
    by blast
  have h: "app_put_todos_id now s req = ((200, TodoDoc (Todo_set now ?f d)), s')"
    using u by (simp add: app_put_todos_id_def)
  show "\<exists>d' s'. app_put_todos_id now s req = ((200, TodoDoc d'), s')
       \<and> Todo_findById s' (params_id req) = Inr (Some d')
       \<and> t_done d' = (case tb_done (body req) of None \<Rightarrow> t_done d | Some b \<Rightarrow> b)
       \<and> t_title d' = (case tb_title (body req) of None \<Rightarrow> t_title d | Some x \<Rightarrow> x)
       \<and> t_id d' = t_id d \<and> t_createdAt d' = t_createdAt d \<and> t_updatedAt d' = now
       \<and> posts s' = posts s
       \<and> mset (todos s') = mset (todos s) - {#d#} + {#d'#}"
    apply (rule exI [of _ "Todo_set now ?f d"])
    apply (rule exI [of _ s'])
    using h r t m by (simp add: Todo_set_def)
next
  let ?f = "\<lparr>f_title = None, f_done = tb_done (body req)\<rparr>"
  from Todo_findByIdAndUpdate_resolved [OF assms, of now ?f]
  obtain s' where u: "Todo_findByIdAndUpdate now s (params_id req) ?f
        = Inr (Some (Todo_set now ?f d), s')"
    and r: "Todo_findById s' (params_id req) = Inr (Some (Todo_set now ?f d))"
    and t: "posts s' = posts s"
    and m: "mset (todos s') = mset (todos s) - {#d#} + {#Todo_set now ?f d#}"
    by blast
  have h: "api_put_todos_id now s req = ((200, TodoDoc (Todo_set now ?f d)), s')"
    using u by (simp add: api_put_todos_id_def)
  show "\<exists>d' s'. api_put_todos_id now s req = ((200, TodoDoc d'), s')
       \<and> Todo_findById s' (params_id req) = Inr (Some d')
       \<and> t_done d' = (case tb_done (body req) of None \<Rightarrow> t_done d | Some b \<Rightarrow> b)
       \<and> t_title d' = t_title d
       \<and> t_id d' = t_id d \<and> t_createdAt d' = t_createdAt d \<and> t_updatedAt d' = now
       \<and> posts s' = posts s
       \<and> mset (todos s') = mset (todos s) - {#d#} + {#d'#}"
    apply (rule exI [of _ "Todo_set now ?f d"])
    apply (rule exI [of _ s'])
    using h r t m by (simp add: Todo_set_def)
qed

theorem put_todos_keeps_absent_fields_witness:
  "Todo_findById store1 ''65f0a1b2c3d4e5f601234567'' = Inr (Some milk)
   \<and> (\<exists>d' s'. app_put_todos_id 2000 store1
          (anon ''65f0a1b2c3d4e5f601234567'' (no_todo_body\<lparr>tb_done := Some True\<rparr>))
          = ((200, TodoDoc d'), s')
        \<and> t_done d' = True \<and> t_title d' = ''buy milk'')
   \<and> (\<exists>d' s'. api_put_todos_id 2000 store1
          (anon ''65f0a1b2c3d4e5f601234567'' (no_todo_body\<lparr>tb_done := Some True\<rparr>))
          = ((200, TodoDoc d'), s')
        \<and> t_done d' = True \<and> t_title d' = ''buy milk'')"
proof -
  let ?r = "anon ''65f0a1b2c3d4e5f601234567'' (no_todo_body\<lparr>tb_done := Some True\<rparr>)"
  have a: "Todo_findById store1 (params_id ?r) = Inr (Some milk)"
    by (simp add: Todo_findById_def castObjectId_milk store1_def milk_def anon_def)
  have b: "tb_done (body ?r) = Some True" "tb_title (body ?r) = None" "t_title milk = ''buy milk''"
    by (simp_all add: anon_def no_todo_body_def milk_def)
  from put_todos_keeps_absent_fields [OF a, of 2000] b
  have "(\<exists>d' s'. app_put_todos_id 2000 store1 ?r = ((200, TodoDoc d'), s')
        \<and> t_done d' = True \<and> t_title d' = ''buy milk'')
   \<and> (\<exists>d' s'. api_put_todos_id 2000 store1 ?r = ((200, TodoDoc d'), s')
        \<and> t_done d' = True \<and> t_title d' = ''buy milk'')"
    by (simp only: option.case) blast
  with a show ?thesis by (simp add: anon_def)
qed

subsection \<open>Creating a Todo and listing\<close>

text \<open>
  C8, as the code behaves. A POST /todos with a non-empty title and no done field is
  answered 201 with a record whose done is false, and a following GET /todos returns the
  collection, the new record included, ordered by creation time, latest first. The new
  record is the first of the list when the clock at the creation is later than the
  creation time of every Todo already stored.
\<close>

theorem created_todo_is_listed_first:
  assumes "tb_title (body req) = Some t" and "t \<noteq> []" and "tb_done (body req) = None"
  shows "\<exists>doc s' l.
       app_post_todos now oid s req = ((201, TodoDoc doc), s')
     \<and> t_title doc = t \<and> t_done doc = False
     \<and> app_get_todos s' req' = ((200, TodoList l), s')
     \<and> sorted_wrt (\<lambda>a b. t_createdAt b \<le> t_createdAt a) l
     \<and> mset l = mset (todos s) + {#doc#}
     \<and> ((\<forall>d \<in> set (todos s). t_createdAt d < now)
          \<longrightarrow> (\<exists>rest. l = doc # rest \<and> mset rest = mset (todos s)))"
proof -
  let ?doc = "\<lparr>t_id = oid, t_title = t, t_done = False, t_createdAt = now, t_updatedAt = now\<rparr>"
  let ?s = "s\<lparr>todos := todos s @ [?doc]\<rparr>"
  let ?l = "Todo_find_sorted ?s"
  have p: "app_post_todos now oid s req = ((201, TodoDoc ?doc), ?s)"
    using assms
    by (simp add: app_post_todos_def falsy_def Todo_create_def required_string_def Let_def)
  have g: "app_get_todos ?s req' = ((200, TodoList ?l), ?s)"
    by (simp add: app_get_todos_def)
  have so: "sorted_wrt (\<lambda>a b. t_createdAt b \<le> t_createdAt a) ?l"
    by (rule Todo_find_sorted_desc)
  have m: "mset ?l = mset (todos s) + {#?doc#}"
    by (simp add: Todo_find_sorted_mset)
  have f: "\<exists>rest. ?l = ?doc # rest \<and> mset rest = mset (todos s)"
    if h: "\<forall>d \<in> set (todos s). t_createdAt d < now"
  proof -
    from h have "\<forall>y \<in> set (todos s). - t_createdAt ?doc < - t_createdAt y"
      by simp
    then have "?l = ?doc # Todo_find_sorted s"
      by (simp add: Todo_find_sorted_def sort_key_snoc_least)
    then show ?thesis
      by (simp add: Todo_find_sorted_mset)
  qed
  show ?thesis
    apply (rule exI [of _ ?doc])
    apply (rule exI [of _ ?s])
    apply (rule exI [of _ ?l])
    using p g so m f by simp
qed

theorem created_todo_is_listed_first_witness:
  "todos store1 = [milk] \<and> t_createdAt milk < 2000
   \<and> (\<exists>doc s'. app_post_todos 2000 ''65f0a1b2c3d4e5f6012345bb'' store1
          (anon [] (no_todo_body\<lparr>tb_title := Some ''walk dog''\<rparr>)) = ((201, TodoDoc doc), s')
        \<and> t_title doc = ''walk dog'' \<and> t_done doc = False
        \<and> app_get_todos s' (anon [] no_todo_body) = ((200, TodoList [doc, milk]), s'))"
proof -
  let ?r = "anon [] (no_todo_body\<lparr>tb_title := Some ''walk dog''\<rparr>)"
  have a: "tb_title (body ?r) = Some ''walk dog''" "''walk dog'' \<noteq> []" "tb_done (body ?r) = None"
    by (simp_all add: anon_def no_todo_body_def)
  have b: "\<forall>d \<in> set (todos store1). t_createdAt d < 2000"
    by (simp add: store1_def milk_def)
  from created_todo_is_listed_first [OF a, of 2000 "''65f0a1b2c3d4e5f6012345bb''" store1
      "anon [] no_todo_body"] b
  obtain doc s' rest where
    1: "app_post_todos 2000 ''65f0a1b2c3d4e5f6012345bb'' store1 ?r = ((201, TodoDoc doc), s')"
    and 2: "t_title doc = ''walk dog''" "t_done doc = False"
    and 3: "app_get_todos s' (anon [] no_todo_body) = ((200, TodoList (doc # rest)), s')"
    and 4: "mset rest = mset (todos store1)"
    by blast
  from 4 have "rest = [milk]"
    by (simp add: store1_def)
  moreover have "todos store1 = [milk]" "t_createdAt milk < 2000"
    by (simp_all add: store1_def milk_def)
  ultimately show ?thesis using 1 2 3 by blast
qed

text \<open>
  A POST /todos at the clock value 1000, the creation time of the stored Todo, and one at
  the clock value 900: the following GET /todos lists the new record second, where C8 says
  first.
\<close>

theorem created_todo_listed_second_counterexample:
  "app_post_todos 1000 ''65f0a1b2c3d4e5f6012345bb'' store1
      (anon [] (no_todo_body\<lparr>tb_title := Some ''walk dog''\<rparr>))
   = ((201, TodoDoc (walk 1000)), \<lparr>todos = [milk, walk 1000], posts = [hello]\<rparr>)
   \<and> app_get_todos \<lparr>todos = [milk, walk 1000], posts = [hello]\<rparr> (anon [] no_todo_body)
   = ((200, TodoList [milk, walk 1000]), \<lparr>todos = [milk, walk 1000], posts = [hello]\<rparr>)
   \<and> app_post_todos 900 ''65f0a1b2c3d4e5f6012345bb'' store1
      (anon [] (no_todo_body\<lparr>tb_title := Some ''walk dog''\<rparr>))
   = ((201, TodoDoc (walk 900)), \<lparr>todos = [milk, walk 900], posts = [hello]\<rparr>)
   \<and> app_get_todos \<lparr>todos = [milk, walk 900], posts = [hello]\<rparr> (anon [] no_todo_body)
   = ((200, TodoList [milk, walk 900]), \<lparr>todos = [milk, walk 900], posts = [hello]\<rparr>)"
  by (simp add: app_post_todos_def anon_def no_todo_body_def falsy_def Todo_create_def
      required_string_def Let_def store1_def app_get_todos_def Todo_find_sorted_def milk_def
      walk_def)

subsection \<open>The handlers of api/index.js and of the earlier revision\<close>

text \<open>
  With the configured key in the header, the Post handlers of api/index.js are those of
  app.js; with any other header, or none, they answer 401 and store nothing. The PUT
  /posts/:id of the earlier revision is that of app.js on a body without coverImage and
  media.
\<close>

lemma api_authorized_is_app:
  assumes "headers req ''x-admin-key'' = Some (ADMIN_KEY v)"
  shows "api_post_posts v now oid s req = app_post_posts now oid s req"
    and "api_put_posts_id v now s req = app_put_posts_id now s req"
    and "api_delete_posts_id v s req = app_delete_posts_id s req"
  using assms
  by (simp_all add: key_mismatch_def api_post_posts_def app_post_posts_def
      api_put_posts_id_def app_put_posts_id_def api_delete_posts_id_def
      app_delete_posts_id_def)

lemma api_unauthorized:
  assumes "headers req ''x-admin-key'' \<noteq> Some (ADMIN_KEY v)"
  shows "api_post_posts v now oid s req = ((401, Message Unauthorized), s)"
    and "api_put_posts_id v now s req = ((401, Message Unauthorized), s)"
    and "api_delete_posts_id v s req = ((401, Message Unauthorized), s)"
  using assms
  by (simp_all add: key_mismatch_def api_post_posts_def api_put_posts_id_def
      api_delete_posts_id_def)

lemma early_put_posts_is_app_without_cover_and_media:
  "early_put_posts_id now s req
   = app_put_posts_id now s (req\<lparr>body := (body req)\<lparr>pb_coverImage := None, pb_media := None\<rparr>\<rparr>)"
  by (simp add: early_put_posts_id_def app_put_posts_id_def)

subsection \<open>The shared secret on POST /posts\<close>

text \<open>
  The handler of api/index.js compares the header first: a request without the header, or
  with another value than the configured key, is answered 401 and nothing is stored,
  whatever the body holds.
\<close>

lemma api_post_posts_unauthorized:
  assumes "headers req ''x-admin-key'' = None
    \<or> headers req ''x-admin-key'' \<noteq> Some (ADMIN_KEY v)"
  shows "api_post_posts v now oid s req = ((401, Message Unauthorized), s)"
  using assms by (auto simp: api_post_posts_def key_mismatch_def)

lemma api_post_posts_key_before_title:
  "api_post_posts None 2000 ''65f0a1b2c3d4e5f6012345cc'' store1 (anon [] no_post_body)
     = ((401, Message Unauthorized), store1)
   \<and> api_post_posts None 2000 ''65f0a1b2c3d4e5f6012345cc'' store1
        \<lparr>headers = [''x-admin-key'' \<mapsto> ''dagu-admin-key''], params_id = [],
         body = no_post_body\<rparr>
     = ((400, Message TitleRequired), store1)"
  by (simp add: api_post_posts_def key_mismatch_def ADMIN_KEY_def falsy_def anon_def
      no_post_body_def)

text \<open>
  C1, on app.js. The handler of app.js reads no header: a POST /posts without the
  x-admin-key header and with a title is answered 201, and the Post is stored.
\<close>

theorem app_post_posts_without_key:
  "app_post_posts 2000 ''65f0a1b2c3d4e5f6012345cc'' store0
      (anon [] (no_post_body\<lparr>pb_title := Some ''Hello''\<rparr>))
   = ((201, PostDoc \<lparr>p_id = ''65f0a1b2c3d4e5f6012345cc'', p_title = ''Hello'', p_content = [],
                    p_tags = [], p_coverImage = [], p_media = [],
                    p_createdAt = 2000, p_updatedAt = 2000\<rparr>),
      \<lparr>todos = [],
       posts = [\<lparr>p_id = ''65f0a1b2c3d4e5f6012345cc'', p_title = ''Hello'', p_content = [],
                 p_tags = [], p_coverImage = [], p_media = [],
                 p_createdAt = 2000, p_updatedAt = 2000\<rparr>]\<rparr>)"
  by (simp add: app_post_posts_def anon_def no_post_body_def falsy_def Post_create_def
      required_string_def store0_def Let_def)

subsection \<open>Media entries\<close>

text \<open>
  A POST /posts whose media holds an entry with a type other than image, video or audio,
  or with no url or the empty url, stores nothing: the answer is 400 when the title is
  missing and otherwise 500, the store layer having rejected the document. Every Post that
  a POST /posts stores has only media entries with one of the three types and a non-empty
  url.
\<close>

lemma create_validates_media:
  "(pb_media (body req) = Some ms
      \<and> (\<exists>m \<in> set ms. m_type m \<notin> {Some ''image'', Some ''video'', Some ''audio''}
                          \<or> m_url m \<in> {None, Some []})
     \<longrightarrow> app_post_posts now oid s req
           = (if falsy (pb_title (body req)) then ((400, Message TitleRequired), s)
              else ((500, Message ServerError), s)))
   \<and> (app_post_posts now oid s req = ((201, PostDoc d), s')
     \<longrightarrow> posts s' = posts s @ [d]
         \<and> (\<forall>m \<in> set (p_media d).
               m_type m \<in> {Some ''image'', Some ''video'', Some ''audio''} \<and> m_url m \<notin> {None, Some []}))"
proof -
  have rejected: "app_post_posts now oid s req
           = (if falsy (pb_title (body req)) then ((400, Message TitleRequired), s)
              else ((500, Message ServerError), s))"
    if a: "pb_media (body req) = Some ms
      \<and> (\<exists>m \<in> set ms. m_type m \<notin> {Some ''image'', Some ''video'', Some ''audio''}
                          \<or> m_url m \<in> {None, Some []})"
  proof -
    from a obtain m where "m \<in> set ms" and "\<not> valid_media m"
      using not_spelled_invalid by blast
    then have "\<not> list_all valid_media ms"
      by (auto simp: list_all_iff)
    with a show ?thesis
      by (simp add: app_post_posts_def Post_create_def Let_def split: option.splits)
  qed
  have created: "posts s' = posts s @ [d]
         \<and> (\<forall>m \<in> set (p_media d).
               m_type m \<in> {Some ''image'', Some ''video'', Some ''audio''} \<and> m_url m \<notin> {None, Some []})"
    if a: "app_post_posts now oid s req = ((201, PostDoc d), s')"
  proof -
    from a have "list_all valid_media (p_media d)" and p: "posts s' = posts s @ [d]"
      by (auto simp: app_post_posts_def Post_create_def Let_def split: if_splits option.splits)
    then have "\<forall>m \<in> set (p_media d).
               m_type m \<in> {Some ''image'', Some ''video'', Some ''audio''} \<and> m_url m \<notin> {None, Some []}"
      using valid_media_spelled by (auto simp: list_all_iff)
    with p show ?thesis by simp
  qed
  from rejected created show ?thesis by blast
qed

lemma create_validates_media_example:
  "app_post_posts 2000 ''65f0a1b2c3d4e5f6012345cc'' store1
     (anon [] (no_post_body\<lparr>pb_title := Some ''Paper'',
        pb_media := Some [\<lparr>m_type = Some ''pdf'', m_url = Some ''http://h/f.pdf''\<rparr>]\<rparr>))
   = ((500, Message ServerError), store1)
   \<and> app_post_posts 2000 ''65f0a1b2c3d4e5f6012345cc'' store0
     (anon [] (no_post_body\<lparr>pb_title := Some ''Clip'',
        pb_media := Some [\<lparr>m_type = Some ''video'', m_url = Some ''http://h/v.mp4''\<rparr>]\<rparr>))
   = ((201, PostDoc \<lparr>p_id = ''65f0a1b2c3d4e5f6012345cc'', p_title = ''Clip'', p_content = [],
                    p_tags = [], p_coverImage = [],
                    p_media = [\<lparr>m_type = Some ''video'', m_url = Some ''http://h/v.mp4''\<rparr>],
                    p_createdAt = 2000, p_updatedAt = 2000\<rparr>),
      \<lparr>todos = [],
       posts = [\<lparr>p_id = ''65f0a1b2c3d4e5f6012345cc'', p_title = ''Clip'', p_content = [],
                 p_tags = [], p_coverImage = [],
                 p_media = [\<lparr>m_type = Some ''video'', m_url = Some ''http://h/v.mp4''\<rparr>],
                 p_createdAt = 2000, p_updatedAt = 2000\<rparr>]\<rparr>)"
proof -
  let ?bad = "anon [] (no_post_body\<lparr>pb_title := Some ''Paper'',
        pb_media := Some [\<lparr>m_type = Some ''pdf'', m_url = Some ''http://h/f.pdf''\<rparr>]\<rparr>)"
  let ?good = "anon [] (no_post_body\<lparr>pb_title := Some ''Clip'',
        pb_media := Some [\<lparr>m_type = Some ''video'', m_url = Some ''http://h/v.mp4''\<rparr>]\<rparr>)"
  have 1: "app_post_posts 2000 ''65f0a1b2c3d4e5f6012345cc'' store1 ?bad
      = ((500, Message ServerError), store1)"
    using create_validates_media
      [of ?bad "[\<lparr>m_type = Some ''pdf'', m_url = Some ''http://h/f.pdf''\<rparr>]"
          2000 "''65f0a1b2c3d4e5f6012345cc''" store1]
    by (simp add: anon_def no_post_body_def falsy_def)
  have 2: "app_post_posts 2000 ''65f0a1b2c3d4e5f6012345cc'' store0 ?good
   = ((201, PostDoc \<lparr>p_id = ''65f0a1b2c3d4e5f6012345cc'', p_title = ''Clip'', p_content = [],
                    p_tags = [], p_coverImage = [],
                    p_media = [\<lparr>m_type = Some ''video'', m_url = Some ''http://h/v.mp4''\<rparr>],
                    p_createdAt = 2000, p_updatedAt = 2000\<rparr>),
      \<lparr>todos = [],
       posts = [\<lparr>p_id = ''65f0a1b2c3d4e5f6012345cc'', p_title = ''Clip'', p_content = [],
                 p_tags = [], p_coverImage = [],
                 p_media = [\<lparr>m_type = Some ''video'', m_url = Some ''http://h/v.mp4''\<rparr>],
                 p_createdAt = 2000, p_updatedAt = 2000\<rparr>]\<rparr>)"
    by (simp add: app_post_posts_def anon_def no_post_body_def falsy_def Post_create_def
      required_string_def store0_def Let_def valid_media_def)
  from 1 2 show ?thesis by simp
qed

text \<open>
  C6, on the update. A PUT /posts/:id with a media entry of type pdf, on the id of a
  stored Post, is answered 200 and the entry is stored: no validator runs on the update.
  The same entry in a POST /posts is rejected by the store layer, and the answer is 500.
\<close>

theorem put_posts_stores_pdf:
  "app_put_posts_id 2000 store1
     (anon ''65f0a1b2c3d4e5f6012345aa''
        (no_post_body\<lparr>pb_media :=
           Some [\<lparr>m_type = Some ''pdf'', m_url = Some ''http://h/f.pdf''\<rparr>]\<rparr>))
   = ((200, PostDoc (hello\<lparr>p_media := [\<lparr>m_type = Some ''pdf'', m_url = Some ''http://h/f.pdf''\<rparr>],
                          p_updatedAt := 2000\<rparr>)),
      \<lparr>todos = [milk],
       posts = [hello\<lparr>p_media := [\<lparr>m_type = Some ''pdf'', m_url = Some ''http://h/f.pdf''\<rparr>],
                     p_updatedAt := 2000\<rparr>]\<rparr>)
   \<and> app_post_posts 2000 ''65f0a1b2c3d4e5f6012345cc'' store1
     (anon [] (no_post_body\<lparr>pb_title := Some ''Paper'',
        pb_media := Some [\<lparr>m_type = Some ''pdf'', m_url = Some ''http://h/f.pdf''\<rparr>]\<rparr>))
   = ((500, Message ServerError), store1)"
  by (simp add: app_put_posts_id_def anon_def no_post_body_def Post_findByIdAndUpdate_def
      castObjectId_hello store1_def hello_def Post_set_def app_post_posts_def falsy_def
      Post_create_def required_string_def valid_media_def Let_def)

subsection \<open>What a create reads of the body\<close>

text \<open>
  C10. Two POST /todos requests whose bodies agree on title and done have the same
  outcome, and so have two POST /posts requests whose bodies agree on title, content,
  tags, coverImage and media: no other key of the body is read. The record a create
  stores has the id the driver generated and the clock value as both timestamps.
\<close>

theorem create_reads_declared_fields_only:
  "(tb_title (body r1) = tb_title (body r2) \<and> tb_done (body r1) = tb_done (body r2)
      \<longrightarrow> app_post_todos now oid s r1 = app_post_todos now oid s r2)
   \<and> (pb_title (body q1) = pb_title (body q2) \<and> pb_content (body q1) = pb_content (body q2)
       \<and> pb_tags (body q1) = pb_tags (body q2)
       \<and> pb_coverImage (body q1) = pb_coverImage (body q2)
       \<and> pb_media (body q1) = pb_media (body q2)
      \<longrightarrow> app_post_posts now oid s q1 = app_post_posts now oid s q2)
   \<and> (fst (fst (app_post_todos now oid s r1)) = 201
      \<longrightarrow> (\<exists>d. app_post_todos now oid s r1 = ((201, TodoDoc d), s\<lparr>todos := todos s @ [d]\<rparr>)
             \<and> t_id d = oid \<and> t_createdAt d = now \<and> t_updatedAt d = now))
   \<and> (fst (fst (app_post_posts now oid s q1)) = 201
      \<longrightarrow> (\<exists>d. app_post_posts now oid s q1 = ((201, PostDoc d), s\<lparr>posts := posts s @ [d]\<rparr>)
             \<and> p_id d = oid \<and> p_createdAt d = now \<and> p_updatedAt d = now))"
proof -
  have a: "app_post_todos now oid s r1 = app_post_todos now oid s r2"
    if "tb_title (body r1) = tb_title (body r2) \<and> tb_done (body r1) = tb_done (body r2)"
    using that by (simp add: app_post_todos_def)
  have b: "app_post_posts now oid s q1 = app_post_posts now oid s q2"
    if "pb_title (body q1) = pb_title (body q2) \<and> pb_content (body q1) = pb_content (body q2)
       \<and> pb_tags (body q1) = pb_tags (body q2)
       \<and> pb_coverImage (body q1) = pb_coverImage (body q2)
       \<and> pb_media (body q1) = pb_media (body q2)"
    using that by (simp add: app_post_posts_def)
  have c: "\<exists>d. app_post_todos now oid s r1 = ((201, TodoDoc d), s\<lparr>todos := todos s @ [d]\<rparr>)
             \<and> t_id d = oid \<and> t_createdAt d = now \<and> t_updatedAt d = now"
    if "fst (fst (app_post_todos now oid s r1)) = 201"
    using that
    by (auto simp: app_post_todos_def Todo_create_def Let_def split: if_splits option.splits)
  have d: "\<exists>d. app_post_posts now oid s q1 = ((201, PostDoc d), s\<lparr>posts := posts s @ [d]\<rparr>)
             \<and> p_id d = oid \<and> p_createdAt d = now \<and> p_updatedAt d = now"
    if "fst (fst (app_post_posts now oid s q1)) = 201"
    using that
    by (auto simp: app_post_posts_def Post_create_def Let_def split: if_splits option.splits)
  from a b c d show ?thesis by blast
qed

theorem create_reads_declared_fields_only_witness:
  "app_post_todos 2000 ''65f0a1b2c3d4e5f6012345bb'' store1
     (anon [] \<lparr>tb_title = Some ''x'', tb_done = None,
               tb_other = [(''_id'', JStr ''000000000000000000000001''),
                           (''createdAt'', JNum 5), (''updatedAt'', JNum 6)]\<rparr>)
   = app_post_todos 2000 ''65f0a1b2c3d4e5f6012345bb'' store1
       (anon [] \<lparr>tb_title = Some ''x'', tb_done = None, tb_other = []\<rparr>)
   \<and> app_post_posts 2000 ''65f0a1b2c3d4e5f6012345bb'' store1
     (anon [] (no_post_body\<lparr>pb_title := Some ''x'',
                 pb_other := [(''_id'', JStr ''000000000000000000000001'')]\<rparr>))
   = app_post_posts 2000 ''65f0a1b2c3d4e5f6012345bb'' store1
       (anon [] (no_post_body\<lparr>pb_title := Some ''x''\<rparr>))
   \<and> (\<exists>d. app_post_todos 2000 ''65f0a1b2c3d4e5f6012345bb'' store1
          (anon [] \<lparr>tb_title = Some ''x'', tb_done = None,
               tb_other = [(''_id'', JStr ''000000000000000000000001''),
                           (''createdAt'', JNum 5), (''updatedAt'', JNum 6)]\<rparr>)
          = ((201, TodoDoc d), store1\<lparr>todos := todos store1 @ [d]\<rparr>)
        \<and> t_id d = ''65f0a1b2c3d4e5f6012345bb'' \<and> t_createdAt d = 2000
        \<and> t_updatedAt d = 2000)
   \<and> (\<exists>d. app_post_posts 2000 ''65f0a1b2c3d4e5f6012345bb'' store1
          (anon [] (no_post_body\<lparr>pb_title := Some ''x'',
                 pb_other := [(''_id'', JStr ''000000000000000000000001'')]\<rparr>))
          = ((201, PostDoc d), store1\<lparr>posts := posts store1 @ [d]\<rparr>)
        \<and> p_id d = ''65f0a1b2c3d4e5f6012345bb'' \<and> p_createdAt d = 2000
        \<and> p_updatedAt d = 2000)"
proof -
  let ?r1 = "anon [] \<lparr>tb_title = Some ''x'', tb_done = None,
               tb_other = [(''_id'', JStr ''000000000000000000000001''),
                           (''createdAt'', JNum 5), (''updatedAt'', JNum 6)]\<rparr>"
  let ?r2 = "anon [] \<lparr>tb_title = Some ''x'', tb_done = None, tb_other = []\<rparr>"
  let ?q1 = "anon [] (no_post_body\<lparr>pb_title := Some ''x'',
                 pb_other := [(''_id'', JStr ''000000000000000000000001'')]\<rparr>)"
  let ?q2 = "anon [] (no_post_body\<lparr>pb_title := Some ''x''\<rparr>)"
  have t: "fst (fst (app_post_todos 2000 ''65f0a1b2c3d4e5f6012345bb'' store1 ?r1)) = 201"
    by (simp add: app_post_todos_def anon_def falsy_def Todo_create_def required_string_def
        Let_def)
  have p: "fst (fst (app_post_posts 2000 ''65f0a1b2c3d4e5f6012345bb'' store1 ?q1)) = 201"
    by (simp add: app_post_posts_def anon_def no_post_body_def falsy_def Post_create_def
        required_string_def Let_def)
  have e: "tb_title (body ?r1) = tb_title (body ?r2) \<and> tb_done (body ?r1) = tb_done (body ?r2)"
    "pb_title (body ?q1) = pb_title (body ?q2) \<and> pb_content (body ?q1) = pb_content (body ?q2)
       \<and> pb_tags (body ?q1) = pb_tags (body ?q2)
       \<and> pb_coverImage (body ?q1) = pb_coverImage (body ?q2)
       \<and> pb_media (body ?q1) = pb_media (body ?q2)"
    by (simp_all add: anon_def no_post_body_def)
  from create_reads_declared_fields_only
    [of ?r1 ?r2 2000 "''65f0a1b2c3d4e5f6012345bb''" store1 ?q1 ?q2] t p e
  show ?thesis by blast
qed

end
